theory Spec2Isabelle
  imports Main "HOL-Library.Sublist"
begin

section \<open>Values shared by the modules\<close>

text \<open>
  A JavaScript string is modelled as a HOL \<open>string\<close>, one \<open>char\<close> for each code unit, so
  that \<open>s.substring(0, 500)\<close> is \<open>take 500 s\<close> and \<open>s.length\<close> is \<open>length s\<close>.

  A thrown value is either an \<open>Error\<close> object, of which only the message is ever read, or
  some other value, of which only \<open>String(error)\<close> is ever read.
\<close>

datatype js_exn = JsError string | NonError string

text \<open>\<open>error instanceof Error ? error.message : String(error)\<close>\<close>

definition errorMessage :: "js_exn \<Rightarrow> string" where
  "errorMessage error = (case error of JsError message \<Rightarrow> message | NonError s \<Rightarrow> s)"

text \<open>
  A JavaScript number is left open: it is a value of a type parameter \<open>'n\<close> that has the
  number \<open>1\<close>, such as \<open>int\<close> or \<open>real\<close>. The code does two things with numbers: it
  compares the round with \<open>1\<close>, and it puts numbers into template literals. The text the
  runtime prints for a number there (decimal digits for an integer below \<open>10^21\<close>,
  exponent notation from there on, a fraction for a non-integer) is a parameter
  \<open>toText\<close> of the model, and every statement holds for every such function.

  The plain decimal notation of an integer: it is what the runtime prints for the attempt
  limit \<open>3\<close>, and it is the \<open>toText\<close> of the examples, on the numbers 1 and 2.
\<close>

definition digitChar :: "nat \<Rightarrow> char" where
  "digitChar d = char_of (48 + d)"

fun digits :: "nat \<Rightarrow> string" where
  "digits n = (if n < 10 then [digitChar n] else digits (n div 10) @ [digitChar (n mod 10)])"

declare digits.simps [simp del]

definition decimal :: "int \<Rightarrow> string" where
  "decimal n = (if n < 0 then CHR ''-'' # digits (nat (- n)) else digits (nat n))"

text \<open>\<open>Array.prototype.join\<close>\<close>

fun join :: "string \<Rightarrow> string list \<Rightarrow> string" where
  "join sep [] = []"
| "join sep [x] = x"
| "join sep (x # y # ys) = x @ sep @ join sep (y # ys)"

text \<open>
  \<open>try { body } catch (error) { handler }\<close> over a threaded state: the handler runs on the
  state the body left behind, and may itself throw.
\<close>

definition tryCatch ::
  "(js_exn + 'a) \<times> 's \<Rightarrow> (js_exn \<Rightarrow> 's \<Rightarrow> (js_exn + 'a) \<times> 's) \<Rightarrow> (js_exn + 'a) \<times> 's" where
  "tryCatch body handler =
     (case body of (Inl error, s) \<Rightarrow> handler error s | (Inr r, s) \<Rightarrow> (Inr r, s))"


section \<open>The Gemini client module: handles and single-shot generation\<close>

text \<open>
  The module-global handles. A \<open>GenerativeModel\<close> handle is identified with the model name
  it was created for, \<open>genAI\<close> with the API key it was created with.
\<close>

record client =
  genAI :: string
  geminiProModel :: string
  geminiFlashModel :: string

text \<open>
  The upstream service: what \<open>generateContent(prompt)\<close> followed by
  \<open>result.response.text()\<close> yields for a model name and a prompt, the exception thrown by
  either or the text.
\<close>

type_synonym upstream = "string \<Rightarrow> string \<Rightarrow> js_exn + string"

text \<open>
  What a tool invocation can read and change: the module globals. The world also keeps
  the upstream calls issued so far, each as the pair of the model name and the prompt
  sent; no code reads them. Logger and console output is left out throughout.
\<close>

record world =
  globals :: client
  calls :: "(string \<times> string) list"

text \<open>
  \<open>generateWithGeminiPro\<close>: one \<open>generateContent\<close> call on the Pro handle; its
  \<open>catch\<close> clause rethrows what it caught.
\<close>

definition generateWithGeminiPro :: "upstream \<Rightarrow> string \<Rightarrow> world \<Rightarrow> (js_exn + string) \<times> world" where
  "generateWithGeminiPro up prompt w =
     tryCatch
       (up (geminiProModel (globals w)) prompt,
        w\<lparr>calls := calls w @ [(geminiProModel (globals w), prompt)]\<rparr>)
       (\<lambda>error w'. (Inl error, w'))"


section \<open>The brainstorm tools\<close>

record 'n BrainstormRound =
  round_no :: 'n
  claudeInput :: string
  geminiResponse :: string

text \<open>
  A tool result: the text of its single content item and the \<open>isError\<close> flag, \<open>False\<close>
  where the source leaves the flag out.
\<close>

record tool_result =
  content_text :: string
  isError :: bool

text \<open>
  One element of \<open>history.map(entry => ...)\<close>, the same template in both tools;
  \<open>toText\<close> prints the round number.
\<close>

definition renderEntry :: "('n \<Rightarrow> string) \<Rightarrow> 'n BrainstormRound \<Rightarrow> string" where
  "renderEntry toText entry =
     ''\<newline>Round '' @ toText (round_no entry) @ '':\<newline>'' @
     ''- Claude: '' @ take 500 (claudeInput entry) @ ''...\<newline>'' @
     ''- Gemini: '' @ take 500 (geminiResponse entry) @ ''...\<newline>''"

definition historyText :: "('n \<Rightarrow> string) \<Rightarrow> 'n BrainstormRound list \<Rightarrow> string" where
  "historyText toText history = join ''\<newline>'' (map (renderEntry toText) history)"

definition initialPrompt :: "string \<Rightarrow> string" where
  "initialPrompt prompt =
     ''\<newline>'' @
     ''You are participating in a collaborative brainstorming session with Claude, another AI assistant.\<newline>'' @
     ''Together, you will create a plan to address the following request:\<newline>'' @
     ''\<newline>'' @
     ''---\<newline>'' @
     prompt @ ''\<newline>'' @
     ''---\<newline>'' @
     ''\<newline>'' @
     ''Please provide your initial thoughts, considering:\<newline>'' @
     ''1. How you would approach this problem\<newline>'' @
     ''2. What information or resources you might need\<newline>'' @
     ''3. Any challenges you anticipate\<newline>'' @
     ''4. The steps you would take to implement a solution\<newline>'' @
     ''\<newline>'' @
     ''Remember, this is the first round of a collaborative discussion, so focus on sharing your initial perspective rather than a complete solution.\<newline>''"

definition collaborationPrompt ::
  "('n \<Rightarrow> string) \<Rightarrow> string \<Rightarrow> 'n \<Rightarrow> string \<Rightarrow> 'n BrainstormRound list \<Rightarrow> string" where
  "collaborationPrompt toText prompt rnd input history =
     ''\<newline>'' @
     ''You are in round '' @ toText rnd @ '' of a collaborative brainstorming session about this request:\<newline>'' @
     ''\<newline>'' @
     ''---\<newline>'' @
     prompt @ ''\<newline>'' @
     ''---\<newline>'' @
     ''\<newline>'' @
     (if length history > 0
      then ''Here's a summary of the previous rounds:\<newline>'' @ historyText toText history
      else '''') @ ''\<newline>'' @
     ''\<newline>'' @
     ''Claude's latest perspective:\<newline>'' @
     input @ ''\<newline>'' @
     ''\<newline>'' @
     ''Based on Claude's perspective'' @
     (if length history > 0 then '' and the previous discussion'' else '''') @ '', please:\<newline>'' @
     ''1. Identify areas where you agree with Claude\<newline>'' @
     ''2. Note any valuable insights from Claude that you hadn't considered\<newline>'' @
     ''3. Respectfully point out any potential issues with Claude's approach\<newline>'' @
     ''4. Build upon both your ideas to refine the approach\<newline>'' @
     ''5. Suggest concrete next steps or details to consider\<newline>'' @
     ''\<newline>'' @
     ''Remember, this is a collaborative process to develop the best possible solution.\<newline>''"

definition synthesisPrompt :: "('n \<Rightarrow> string) \<Rightarrow> string \<Rightarrow> 'n BrainstormRound list \<Rightarrow> string" where
  "synthesisPrompt toText prompt history =
     ''\<newline>'' @
     ''You've participated in a collaborative brainstorming session with Claude about this request:\<newline>'' @
     ''\<newline>'' @
     ''---\<newline>'' @
     prompt @ ''\<newline>'' @
     ''---\<newline>'' @
     ''\<newline>'' @
     ''Here's the complete conversation history:\<newline>'' @
     historyText toText history @ ''\<newline>'' @
     ''\<newline>'' @
     ''Based on this collaborative discussion, please provide:\<newline>'' @
     ''1. A comprehensive synthesis of the best ideas from both assistants\<newline>'' @
     ''2. A clear, step-by-step plan to address the user's request\<newline>'' @
     ''3. Required resources, tools, or information needed\<newline>'' @
     ''4. Any potential challenges and how to address them\<newline>'' @
     ''5. A conclusion summarizing the unified approach\<newline>'' @
     ''\<newline>'' @
     ''Present this as a unified final plan that represents the best collaborative thinking of both assistants.\<newline>''"

text \<open>The success payload, and the payload built by both \<open>catch\<close> clauses.\<close>

definition textResult :: "string \<Rightarrow> tool_result" where
  "textResult t = \<lparr>content_text = t, isError = False\<rparr>"

definition errorResult :: "js_exn \<Rightarrow> tool_result" where
  "errorResult error = \<lparr>content_text = ''Error: '' @ errorMessage error, isError = True\<rparr>"

definition missingInputResult :: tool_result where
  "missingInputResult =
     \<lparr>content_text = ''Error: Claude's input is required for rounds after the first one'', isError = True\<rparr>"

text \<open>
  The \<open>gemini-brainstorm\<close> handler. \<open>claudeInput\<close> and \<open>history\<close> are optional in the
  schema: \<open>None\<close> is \<open>undefined\<close>; \<open>history\<close> defaults to the empty array, and
  \<open>!claudeInput\<close> holds of \<open>undefined\<close> and of the empty string. The body of the
  \<open>try\<close> block comes first, then the handler with its \<open>catch\<close> clause. \<open>toText\<close>
  prints the round numbers.
\<close>

definition brainstormTry ::
  "upstream \<Rightarrow> ('n::one \<Rightarrow> string) \<Rightarrow> string \<Rightarrow> 'n \<Rightarrow> string option \<Rightarrow> 'n BrainstormRound list option
     \<Rightarrow> world \<Rightarrow> (js_exn + tool_result) \<times> world" where
  "brainstormTry up toText prompt rnd claudeInput_arg history_arg w =
     (let history = (case history_arg of None \<Rightarrow> [] | Some h \<Rightarrow> h) in
      if rnd = 1 then
        (case generateWithGeminiPro up (initialPrompt prompt) w of
           (Inl error, w') \<Rightarrow> (Inl error, w')
         | (Inr response, w') \<Rightarrow> (Inr (textResult response), w'))
      else
        (case claudeInput_arg of
           None \<Rightarrow> (Inr missingInputResult, w)
         | Some input \<Rightarrow>
             if input = [] then (Inr missingInputResult, w)
             else
               (case generateWithGeminiPro up (collaborationPrompt toText prompt rnd input history) w of
                  (Inl error, w') \<Rightarrow> (Inl error, w')
                | (Inr response, w') \<Rightarrow> (Inr (textResult response), w'))))"

definition brainstorm ::
  "upstream \<Rightarrow> ('n::one \<Rightarrow> string) \<Rightarrow> string \<Rightarrow> 'n \<Rightarrow> string option \<Rightarrow> 'n BrainstormRound list option
     \<Rightarrow> world \<Rightarrow> (js_exn + tool_result) \<times> world" where
  "brainstorm up toText prompt rnd claudeInput_arg history_arg w =
     tryCatch (brainstormTry up toText prompt rnd claudeInput_arg history_arg w)
       (\<lambda>error w'. (Inr (errorResult error), w'))"

text \<open>The \<open>gemini-brainstorm-synthesis\<close> handler; \<open>history\<close> is required by its schema.\<close>

definition synthesisTry ::
  "upstream \<Rightarrow> ('n \<Rightarrow> string) \<Rightarrow> string \<Rightarrow> 'n BrainstormRound list \<Rightarrow> world
     \<Rightarrow> (js_exn + tool_result) \<times> world" where
  "synthesisTry up toText prompt history w =
     (case generateWithGeminiPro up (synthesisPrompt toText prompt history) w of
        (Inl error, w') \<Rightarrow> (Inl error, w')
      | (Inr response, w') \<Rightarrow> (Inr (textResult response), w'))"

definition synthesis ::
  "upstream \<Rightarrow> ('n \<Rightarrow> string) \<Rightarrow> string \<Rightarrow> 'n BrainstormRound list \<Rightarrow> world
     \<Rightarrow> (js_exn + tool_result) \<times> world" where
  "synthesis up toText prompt history w =
     tryCatch (synthesisTry up toText prompt history w)
       (\<lambda>error w'. (Inr (errorResult error), w'))"

text \<open>The upstream calls a handler run has added to the world.\<close>

definition issued :: "world \<Rightarrow> world \<Rightarrow> (string \<times> string) list" where
  "issued w w' = drop (length (calls w)) (calls w')"


section \<open>The Gemini client module: initialisation\<close>

text \<open>
  The repository holds two versions of the client module; the one whose
  \<open>initGeminiClient\<close> has the retry loop is modelled here. \<open>generateWithChat\<close> and
  \<open>generateWithGeminiPro\<close> are the same in both.

  The process environment read by \<open>initGeminiClient\<close>; \<open>None\<close> is an unset variable.
  \<open>process.env.X || fallback\<close> takes the fallback for an unset and for an empty variable.
\<close>

record env =
  GEMINI_API_KEY :: "string option"
  GEMINI_PRO_MODEL :: "string option"
  GEMINI_FLASH_MODEL :: "string option"

definition orDefault :: "string option \<Rightarrow> string \<Rightarrow> string" where
  "orDefault v fallback = (case v of None \<Rightarrow> fallback | Some s \<Rightarrow> if s = [] then fallback else s)"

text \<open>
  Time is logical, in milliseconds. One \<open>generateContent("Test connection")\<close> call never
  settles, or resolves after some delay with a truthy or a falsy result, or rejects after
  some delay. The behaviour of the validation calls gives this for the call made in
  attempt 1, 2, 3.
\<close>

datatype settle = Never | Resolves nat bool | Rejects nat js_exn

type_synonym validator = "nat \<Rightarrow> settle"

definition maxAttempts :: nat where
  "maxAttempts = 3"

definition timeoutMs :: nat where
  "timeoutMs = 10000"

definition retryDelayMs :: nat where
  "retryDelayMs = 2000"

text \<open>
  \<open>Promise.race([connectionPromise, timeoutPromise])\<close>: the promise that settles first decides,
  and what the other one does later reaches nobody. The result is the outcome of the
  \<open>await\<close> and the time it took. A call settling at the very instant of the timer is
  given to the timer.
\<close>

definition race :: "settle \<Rightarrow> (js_exn + bool) \<times> nat" where
  "race s =
     (case s of
        Never \<Rightarrow> (Inl (JsError ''Connection timeout''), timeoutMs)
      | Resolves d result \<Rightarrow>
          if d < timeoutMs then (Inr result, d) else (Inl (JsError ''Connection timeout''), timeoutMs)
      | Rejects d error \<Rightarrow>
          if d < timeoutMs then (Inl error, d) else (Inl (JsError ''Connection timeout''), timeoutMs))"

text \<open>
  The local variables of the retry loop, the clock, and what the loop did: the upstream
  calls (model name and prompt) and the pauses. Log lines are left out.
\<close>

datatype event = Generate string string | Sleep nat

record init_state =
  connected :: bool
  attempts :: nat
  now :: nat
  events :: "event list"

text \<open>The body of the inner \<open>try\<close> block: one validation attempt.\<close>

definition connectionAttempt :: "client \<Rightarrow> validator \<Rightarrow> init_state \<Rightarrow> (js_exn + unit) \<times> init_state" where
  "connectionAttempt c v st =
     (let st1 = st\<lparr>attempts := attempts st + 1\<rparr>;
          st2 = st1\<lparr>events := events st1 @ [Generate (geminiFlashModel c) ''Test connection'']\<rparr>;
          (result, waited) = race (v (attempts st2));
          st3 = st2\<lparr>now := now st2 + waited\<rparr>
      in case result of
           Inl error \<Rightarrow> (Inl error, st3)
         | Inr r \<Rightarrow>
             if \<not> r then (Inl (JsError ''Failed to connect to Gemini API: empty response''), st3)
             else (Inr (), st3\<lparr>connected := True\<rparr>))"

text \<open>The error thrown by the inner \<open>catch\<close> clause once the attempts are used up.\<close>

definition exhaustedError :: "js_exn \<Rightarrow> js_exn" where
  "exhaustedError error =
     JsError (''Failed to connect to Gemini API after '' @ decimal (int maxAttempts) @
              '' attempts: '' @ errorMessage error)"

definition pause :: "init_state \<Rightarrow> init_state" where
  "pause st = st\<lparr>now := now st + retryDelayMs, events := events st @ [Sleep retryDelayMs]\<rparr>"

text \<open>\<open>while (!connected && attempts < maxAttempts) { try { ... } catch (error) { ... } }\<close>\<close>

function connectLoop :: "client \<Rightarrow> validator \<Rightarrow> init_state \<Rightarrow> (js_exn + unit) \<times> init_state" where
  "connectLoop c v st =
     (if \<not> connected st \<and> attempts st < maxAttempts then
        (case connectionAttempt c v st of
           (Inr _, st') \<Rightarrow> connectLoop c v st'
         | (Inl error, st') \<Rightarrow>
             if attempts st' \<ge> maxAttempts then (Inl (exhaustedError error), st')
             else connectLoop c v (pause st'))
      else (Inr (), st))"
  by pat_completeness auto
termination
  by (relation "measure (\<lambda>(c, v, st). (if connected st then 0 else 1) + (maxAttempts - attempts st))")
     (auto simp: connectionAttempt_def pause_def Let_def split: prod.splits sum.splits if_splits)

declare connectLoop.simps [simp del]

definition initialState :: init_state where
  "initialState = \<lparr>connected = False, attempts = 0, now = 0, events = []\<rparr>"

text \<open>
  \<open>initGeminiClient\<close>: the credential check, the assignment of the three module globals
  (the constructor and \<open>getGenerativeModel\<close> are taken to return), the retry loop. The
  outer \<open>catch\<close> clause rethrows. The result carries the globals as
  assigned (\<open>None\<close> when the function threw before assigning them) and the final state of
  the loop.
\<close>

definition missingKeyError :: js_exn where
  "missingKeyError = JsError ''GEMINI_API_KEY environment variable is required''"

definition configure :: "env \<Rightarrow> string \<Rightarrow> client" where
  "configure e apiKey =
     \<lparr>genAI = apiKey,
      geminiProModel = orDefault (GEMINI_PRO_MODEL e) ''gemini-2.5-pro-preview-03-25'',
      geminiFlashModel = orDefault (GEMINI_FLASH_MODEL e) ''gemini-2.5-flash-preview-04-17''\<rparr>"

definition initGeminiClient :: "env \<Rightarrow> validator \<Rightarrow> (js_exn + unit) \<times> client option \<times> init_state" where
  "initGeminiClient e v =
     (case GEMINI_API_KEY e of
        None \<Rightarrow> (Inl missingKeyError, None, initialState)
      | Some apiKey \<Rightarrow>
          if apiKey = [] then (Inl missingKeyError, None, initialState)
          else
            (let c = configure e apiKey;
                 (r, st) = connectLoop c v initialState
             in (r, Some c, st)))"

text \<open>
  Readings of a run of \<open>initGeminiClient\<close>: whether it returned or what it threw, the
  upstream calls and pauses it made, and the time it took.
\<close>

definition initResult :: "env \<Rightarrow> validator \<Rightarrow> js_exn + unit" where
  "initResult e v = fst (initGeminiClient e v)"

definition initEvents :: "env \<Rightarrow> validator \<Rightarrow> event list" where
  "initEvents e v = events (snd (snd (initGeminiClient e v)))"

definition initTime :: "env \<Rightarrow> validator \<Rightarrow> nat" where
  "initTime e v = now (snd (snd (initGeminiClient e v)))"

text \<open>
  Readings of one validation call: the error with which the attempt that makes it ends
  (\<open>None\<close> when the attempt succeeds), the time the attempt takes, and whether the call is
  still unsettled when the timer has fired.
\<close>

definition failure :: "settle \<Rightarrow> js_exn option" where
  "failure s =
     (case race s of
        (Inl error, _) \<Rightarrow> Some error
      | (Inr result, _) \<Rightarrow>
          if result then None else Some (JsError ''Failed to connect to Gemini API: empty response''))"

definition elapsed :: "settle \<Rightarrow> nat" where
  "elapsed s = snd (race s)"

definition overdue :: "settle \<Rightarrow> bool" where
  "overdue s = (case s of Never \<Rightarrow> True | Resolves d _ \<Rightarrow> timeoutMs < d | Rejects d _ \<Rightarrow> timeoutMs < d)"

text \<open>The validation call as an event, and \<open>n\<close> failed attempts followed by a last one.\<close>

definition validation :: "client \<Rightarrow> event" where
  "validation c = Generate (geminiFlashModel c) ''Test connection''"

definition retried :: "client \<Rightarrow> nat \<Rightarrow> event list" where
  "retried c n = concat (replicate n [validation c, Sleep retryDelayMs]) @ [validation c]"



section \<open>The Gemini client module: chat-based generation\<close>

datatype role = User | Model

record message =
  role :: role
  content :: string

text \<open>
  A chat object, as \<open>model.startChat()\<close> makes it: the model it talks to and the messages
  handed to \<open>sendMessage\<close> so far. The upstream chat service gives, for a model name, the
  messages sent before and the message sent now, the exception thrown (by \<open>sendMessage\<close>
  or, after the loop, by \<open>result.response.text()\<close>) or the text of the response.
\<close>

record chat_session =
  chat_model :: string
  sent :: "string list"

type_synonym chat_upstream = "string \<Rightarrow> string list \<Rightarrow> string \<Rightarrow> js_exn + string"

definition sendMessage :: "chat_upstream \<Rightarrow> string \<Rightarrow> chat_session \<Rightarrow> (js_exn + string) \<times> chat_session" where
  "sendMessage cu msg chat = (cu (chat_model chat) (sent chat) msg, chat\<lparr>sent := sent chat @ [msg]\<rparr>)"

text \<open>\<open>for (const message of messages) { if (message.role === "user") await chat.sendMessage(...) }\<close>\<close>

fun forwardUserMessages :: "chat_upstream \<Rightarrow> message list \<Rightarrow> chat_session \<Rightarrow> (js_exn + unit) \<times> chat_session" where
  "forwardUserMessages cu [] chat = (Inr (), chat)"
| "forwardUserMessages cu (m # ms) chat =
     (if role m = User then
        (case sendMessage cu (content m) chat of
           (Inl error, chat') \<Rightarrow> (Inl error, chat')
         | (Inr _, chat') \<Rightarrow> forwardUserMessages cu ms chat')
      else forwardUserMessages cu ms chat)"

text \<open>
  \<open>generateWithChat\<close>. On an empty array \<open>messages[messages.length - 1]\<close> is \<open>undefined\<close>
  and reading its \<open>role\<close> throws a \<open>TypeError\<close>, here with the message Node gives it. The
  \<open>catch\<close> clause rethrows.
\<close>

definition generateWithChat ::
  "chat_upstream \<Rightarrow> client \<Rightarrow> message list \<Rightarrow> bool \<Rightarrow> (js_exn + string) \<times> chat_session" where
  "generateWithChat cu c messages useProModel =
     (let model = (if useProModel then geminiProModel c else geminiFlashModel c);
          chat = \<lparr>chat_model = model, sent = []\<rparr>
      in case forwardUserMessages cu messages chat of
           (Inl error, chat') \<Rightarrow> (Inl error, chat')
         | (Inr _, chat') \<Rightarrow>
             if messages = [] then
               (Inl (JsError ''Cannot read properties of undefined (reading 'role')''), chat')
             else
               (let lastMessage = last messages in
                if role lastMessage = User then
                  (case sendMessage cu (content lastMessage) chat' of
                     (Inl error, chat'') \<Rightarrow> (Inl error, chat'')
                   | (Inr response, chat'') \<Rightarrow> (Inr response, chat''))
                else (Inr (content lastMessage), chat')))"


text \<open>The contents of the user messages of a list, in order.\<close>

definition userContents :: "message list \<Rightarrow> string list" where
  "userContents messages = map content (filter (\<lambda>m. role m = User) messages)"


section \<open>Example inputs\<close>

text \<open>
  A client as \<open>initGeminiClient\<close> leaves it with the default model names, a world in which
  no call has been issued yet, an upstream that answers every prompt with one fixed text,
  and one that rejects every call with one fixed error.
\<close>

definition exampleClient :: client where
  "exampleClient =
     \<lparr>genAI = ''key'',
      geminiProModel = ''gemini-2.5-pro-preview-03-25'',
      geminiFlashModel = ''gemini-2.5-flash-preview-04-17''\<rparr>"

definition exampleWorld :: world where
  "exampleWorld = \<lparr>globals = exampleClient, calls = []\<rparr>"

definition fixedStub :: "string \<Rightarrow> upstream" where
  "fixedStub response model prompt = Inr response"

definition failingStub :: "js_exn \<Rightarrow> upstream" where
  "failingStub error model prompt = Inl error"

text \<open>
  An environment with the credential and no model names, and behaviours of the validation
  calls: one that times out, then is refused, then answers; one that is refused every
  time; one that never settles; one that answers every time, but after 15 seconds.
\<close>

definition exampleEnv :: env where
  "exampleEnv = \<lparr>GEMINI_API_KEY = Some ''key'', GEMINI_PRO_MODEL = None, GEMINI_FLASH_MODEL = None\<rparr>"



definition silentValidator :: validator where
  "silentValidator k = Never"

definition lateValidator :: validator where
  "lateValidator k = Resolves 15000 True"

text \<open>
  A chat upstream that answers every message, and a conversation that ends with a user
  message.
\<close>

definition echoChat :: chat_upstream where
  "echoChat model earlier msg = Inr (''re: '' @ msg)"

definition exampleMessages :: "message list" where
  "exampleMessages =
     [\<lparr>role = User, content = ''hello''\<rparr>, \<lparr>role = Model, content = ''hi''\<rparr>,
      \<lparr>role = User, content = ''plan?''\<rparr>]"

text \<open>
  An entry cut to what the transcript may show of it: both texts cut to their first 500
  characters. This is the reference the rendering is compared with, not part of the source.
\<close>

definition truncated :: "'n BrainstormRound \<Rightarrow> 'n BrainstormRound" where
  "truncated entry =
     entry\<lparr>claudeInput := take 500 (claudeInput entry), geminiResponse := take 500 (geminiResponse entry)\<rparr>"

text \<open>An entry whose caller text has 2000 characters.\<close>

definition longEntry :: "int BrainstormRound" where
  "longEntry = \<lparr>round_no = 1, claudeInput = replicate 2000 CHR ''x'', geminiResponse = ''A''\<rparr>"

text \<open>An entry with a short caller text and an empty model text.\<close>

definition shortEntry :: "int BrainstormRound" where
  "shortEntry = \<lparr>round_no = 1, claudeInput = ''X'', geminiResponse = []\<rparr>"

text \<open>The history of the end-to-end scenario: one round, caller text X, model text A.\<close>


definition exampleHistory :: "int BrainstormRound list" where
  "exampleHistory = [\<lparr>round_no = 1, claudeInput = ''X'', geminiResponse = ''A''\<rparr>]"


section \<open>Properties of the brainstorm tools\<close>

subsection \<open>What one handler run does\<close>

lemma generateWithGeminiPro_eq:
  "generateWithGeminiPro up prompt w =
     (up (geminiProModel (globals w)) prompt,
      w\<lparr>calls := calls w @ [(geminiProModel (globals w), prompt)]\<rparr>)"
  by (cases "up (geminiProModel (globals w)) prompt") (simp_all add: generateWithGeminiPro_def tryCatch_def)

lemma brainstorm_round1_eq:
  "brainstorm up toText prompt 1 claudeInput_arg history_arg w =
     (Inr (case up (geminiProModel (globals w)) (initialPrompt prompt) of
             Inl error \<Rightarrow> errorResult error | Inr response \<Rightarrow> textResult response),
      w\<lparr>calls := calls w @ [(geminiProModel (globals w), initialPrompt prompt)]\<rparr>)"
  by (simp add: brainstorm_def brainstormTry_def generateWithGeminiPro_eq tryCatch_def split: sum.splits)

lemma brainstorm_later_eq:
  assumes "rnd \<noteq> 1" "input \<noteq> []"
  shows "brainstorm up toText prompt rnd (Some input) history_arg w =
     (Inr (case up (geminiProModel (globals w))
                  (collaborationPrompt toText prompt rnd input (case history_arg of None \<Rightarrow> [] | Some h \<Rightarrow> h)) of
             Inl error \<Rightarrow> errorResult error | Inr response \<Rightarrow> textResult response),
      w\<lparr>calls := calls w @ [(geminiProModel (globals w),
            collaborationPrompt toText prompt rnd input (case history_arg of None \<Rightarrow> [] | Some h \<Rightarrow> h))]\<rparr>)"
  using assms
  by (simp add: brainstorm_def brainstormTry_def generateWithGeminiPro_eq tryCatch_def Let_def split: sum.splits)

lemma brainstorm_no_input_eq:
  assumes "rnd \<noteq> 1" "claudeInput_arg = None \<or> claudeInput_arg = Some []"
  shows "brainstorm up toText prompt rnd claudeInput_arg history_arg w = (Inr missingInputResult, w)"
  using assms by (auto simp add: brainstorm_def brainstormTry_def tryCatch_def)

lemma synthesis_eq:
  "synthesis up toText prompt history w =
     (Inr (case up (geminiProModel (globals w)) (synthesisPrompt toText prompt history) of
             Inl error \<Rightarrow> errorResult error | Inr response \<Rightarrow> textResult response),
      w\<lparr>calls := calls w @ [(geminiProModel (globals w), synthesisPrompt toText prompt history)]\<rparr>)"
  by (simp add: synthesis_def synthesisTry_def generateWithGeminiPro_eq tryCatch_def split: sum.splits)

lemma issued_append: "issued w (w\<lparr>calls := calls w @ cs\<rparr>) = cs"
  by (simp add: issued_def)

lemma issued_same: "issued w w = []"
  by (simp add: issued_def)

lemma decimal_1: "decimal 1 = ''1''"
  by code_simp

subsection \<open>Texts inside texts\<close>

lemma sublist_skip: "sublist part ys \<Longrightarrow> sublist part (xs @ ys)"
  by (auto simp: sublist_def intro: append_assoc [symmetric])

lemma sublist_here: "sublist part (part @ rest)"
  by simp

lemma sublist_join: "x \<in> set xs \<Longrightarrow> sublist x (join sep xs)"
proof (induction sep xs rule: join.induct)
  case (1 sep)
  then show ?case by simp
next
  case (2 sep x')
  then show ?case by simp
next
  case (3 sep x' y ys)
  show ?case
  proof (cases "x = x'")
    case True
    then show ?thesis by simp
  next
    case False
    with 3 have "sublist x (join sep (y # ys))" by simp
    then show ?thesis by (simp only: join.simps) (intro sublist_skip)
  qed
qed

lemma entry_in_transcript:
  "entry \<in> set history \<Longrightarrow> sublist (renderEntry toText entry) (historyText toText history)"
  by (simp add: historyText_def sublist_join)

lemma transcript_in_collaborationPrompt:
  assumes "history \<noteq> []"
  shows "sublist (historyText toText history) (collaborationPrompt toText prompt rnd input history)"
proof -
  have nonempty: "length history > 0" using assms by simp
  show ?thesis
    unfolding collaborationPrompt_def if_P [OF nonempty] append_assoc
    by (intro sublist_here sublist_skip)
qed

lemma transcript_in_synthesisPrompt:
  "sublist (historyText toText history) (synthesisPrompt toText prompt history)"
  unfolding synthesisPrompt_def by (intro sublist_here sublist_skip)

lemma problem_in_initialPrompt: "sublist prompt (initialPrompt prompt)"
  unfolding initialPrompt_def by (intro sublist_here sublist_skip)

subsection \<open>The transcript depends on the truncated entries only\<close>

lemma renderEntry_truncated: "renderEntry toText (truncated entry) = renderEntry toText entry"
  by (simp add: renderEntry_def truncated_def)

lemma historyText_truncated: "historyText toText (map truncated history) = historyText toText history"
  by (simp add: historyText_def renderEntry_truncated comp_def)

lemma collaborationPrompt_truncated:
  "collaborationPrompt toText prompt rnd input (map truncated history) = collaborationPrompt toText prompt rnd input history"
  by (simp add: collaborationPrompt_def historyText_truncated)

lemma synthesisPrompt_truncated:
  "synthesisPrompt toText prompt (map truncated history) = synthesisPrompt toText prompt history"
  by (simp add: synthesisPrompt_def historyText_truncated)

lemma brainstorm_truncated:
  "brainstorm up toText prompt rnd claudeInput_arg (Some (map truncated history)) w
     = brainstorm up toText prompt rnd claudeInput_arg (Some history) w"
  by (simp add: brainstorm_def brainstormTry_def collaborationPrompt_truncated
        cong: option.case_cong if_cong)

lemma synthesis_truncated:
  "synthesis up toText prompt (map truncated history) w = synthesis up toText prompt history w"
  by (simp add: synthesis_def synthesisTry_def synthesisPrompt_truncated)

lemma sublist_chain: "sublist a b \<Longrightarrow> sublist b c \<Longrightarrow> sublist a c"
  by (rule sublist_order.order.trans)

lemma claude_in_entry:
  assumes "length (claudeInput entry) \<le> 500"
  shows "sublist (''- Claude: '' @ claudeInput entry @ ''...'') (renderEntry toText entry)"
proof -
  have "renderEntry toText entry =
      (''\<newline>Round '' @ toText (round_no entry) @ '':\<newline>'') @
      (''- Claude: '' @ claudeInput entry @ ''...'') @
      (''\<newline>'' @ ''- Gemini: '' @ take 500 (geminiResponse entry) @ ''...\<newline>'')"
    using assms by (simp add: renderEntry_def)
  then show ?thesis by (simp only: sublist_appendI)
qed

lemma gemini_in_entry:
  assumes "length (geminiResponse entry) \<le> 500"
  shows "sublist (''- Gemini: '' @ geminiResponse entry @ ''...'') (renderEntry toText entry)"
proof -
  have "renderEntry toText entry =
      (''\<newline>Round '' @ toText (round_no entry) @ '':\<newline>'' @
       ''- Claude: '' @ take 500 (claudeInput entry) @ ''...\<newline>'') @
      (''- Gemini: '' @ geminiResponse entry @ ''...'') @ ''\<newline>''"
    using assms by (simp add: renderEntry_def)
  then show ?thesis by (simp only: sublist_appendI)
qed

lemma part_of_entry_in_prompts:
  assumes "entry \<in> set history" "sublist part (renderEntry toText entry)"
  shows "sublist part (historyText toText history)"
    and "sublist part (collaborationPrompt toText prompt rnd input history)"
    and "sublist part (synthesisPrompt toText prompt history)"
proof -
  from assms(1) have nonempty: "history \<noteq> []" by auto
  from assms show transcript: "sublist part (historyText toText history)"
    by (blast intro: sublist_chain entry_in_transcript)
  from transcript transcript_in_collaborationPrompt [OF nonempty]
  show "sublist part (collaborationPrompt toText prompt rnd input history)"
    by (rule sublist_chain)
  from transcript transcript_in_synthesisPrompt
  show "sublist part (synthesisPrompt toText prompt history)"
    by (rule sublist_chain)
qed

lemma renderEntry_length:
  "length (renderEntry toText entry) \<le> 1037 + length (toText (round_no entry))"
  by (simp add: renderEntry_def)


section \<open>The claims about the brainstorm tools\<close>

text \<open>
  C1, as the code has it. The synthesis handler has no check on the history: for every
  history, the empty one too, it issues exactly one upstream call, on the Pro handle, with
  the synthesis prompt, and returns the model's text, or the error payload when that call
  fails. For the empty history the transcript in the prompt is the empty text.
\<close>

theorem synthesis_always_calls_upstream:
  "issued w (snd (synthesis up toText prompt history w))
     = [(geminiProModel (globals w), synthesisPrompt toText prompt history)]
   \<and> fst (synthesis up toText prompt history w)
     = Inr (case up (geminiProModel (globals w)) (synthesisPrompt toText prompt history) of
              Inl error \<Rightarrow> errorResult error | Inr response \<Rightarrow> textResult response)
   \<and> historyText toText [] = []"
  by (simp add: synthesis_eq issued_append historyText_def)

theorem synthesis_always_calls_upstream_witness:
  "issued exampleWorld (snd (synthesis (fixedStub ''plan'') decimal ''Build a todo app'' exampleHistory exampleWorld))
     = [(''gemini-2.5-pro-preview-03-25'', synthesisPrompt decimal ''Build a todo app'' exampleHistory)]
   \<and> fst (synthesis (fixedStub ''plan'') decimal ''Build a todo app'' exampleHistory exampleWorld)
     = Inr (textResult ''plan'')"
  using synthesis_always_calls_upstream
          [where w = exampleWorld and up = "fixedStub ''plan''" and toText = decimal
             and prompt = "''Build a todo app''" and history = exampleHistory]
  by (simp add: exampleWorld_def exampleClient_def fixedStub_def)

text \<open>
  C1, as the claim has it, fails: on the empty history, with an upstream that answers
  \<open>plan\<close>, the synthesis handler returns \<open>plan\<close> without the error flag, and has issued one
  upstream call.
\<close>

theorem synthesis_empty_history_counterexample:
  "fst (synthesis (fixedStub ''plan'') decimal ''Build a todo app'' [] exampleWorld) = Inr (textResult ''plan'')
   \<and> \<not> isError (textResult ''plan'')
   \<and> length (issued exampleWorld (snd (synthesis (fixedStub ''plan'') decimal ''Build a todo app'' [] exampleWorld))) = 1"
  by (simp add: synthesis_eq issued_append fixedStub_def textResult_def)

text \<open>
  C3. The rendering of a history entry shows the first 500 characters of the caller text
  and the first 500 characters of the model text, each followed by the marker \<open>...\<close>;
  cutting either text to 500 characters beforehand changes nothing, whatever the other text
  is, so no later character reaches the transcript, and the rendering is at most 1037
  characters plus the round number. Every entry's rendering is part of the transcript, the
  transcript is part of the collaboration prompt (for a non-empty history) and of the
  synthesis prompt, and both handlers do the same on a history and on its truncation.
\<close>

theorem transcript_truncation:
  "renderEntry toText entry =
     ''\<newline>Round '' @ toText (round_no entry) @ '':\<newline>'' @
     ''- Claude: '' @ take 500 (claudeInput entry) @ ''...'' @ ''\<newline>'' @
     ''- Gemini: '' @ take 500 (geminiResponse entry) @ ''...'' @ ''\<newline>''
   \<and> renderEntry toText (entry\<lparr>claudeInput := take 500 (claudeInput entry)\<rparr>) = renderEntry toText entry
   \<and> renderEntry toText (entry\<lparr>geminiResponse := take 500 (geminiResponse entry)\<rparr>) = renderEntry toText entry
   \<and> length (renderEntry toText entry) \<le> 1037 + length (toText (round_no entry))
   \<and> (entry \<in> set history \<longrightarrow> sublist (renderEntry toText entry) (historyText toText history))
   \<and> (history \<noteq> [] \<longrightarrow> sublist (historyText toText history) (collaborationPrompt toText prompt rnd input history))
   \<and> sublist (historyText toText history) (synthesisPrompt toText prompt history)
   \<and> brainstorm up toText prompt rnd claudeInput_arg (Some (map truncated history)) w
       = brainstorm up toText prompt rnd claudeInput_arg (Some history) w
   \<and> synthesis up toText prompt (map truncated history) w = synthesis up toText prompt history w"
proof -
  have shape: "renderEntry toText entry =
     ''\<newline>Round '' @ toText (round_no entry) @ '':\<newline>'' @
     ''- Claude: '' @ take 500 (claudeInput entry) @ ''...'' @ ''\<newline>'' @
     ''- Gemini: '' @ take 500 (geminiResponse entry) @ ''...'' @ ''\<newline>''"
    by (simp add: renderEntry_def)
  have claude: "renderEntry toText (entry\<lparr>claudeInput := take 500 (claudeInput entry)\<rparr>) = renderEntry toText entry"
    by (simp add: renderEntry_def)
  have gemini: "renderEntry toText (entry\<lparr>geminiResponse := take 500 (geminiResponse entry)\<rparr>) = renderEntry toText entry"
    by (simp add: renderEntry_def)
  have bounded: "length (renderEntry toText entry) \<le> 1037 + length (toText (round_no entry))"
    by (rule renderEntry_length)
  have rendered: "entry \<in> set history \<longrightarrow> sublist (renderEntry toText entry) (historyText toText history)"
    by (simp add: entry_in_transcript)
  have in_round: "history \<noteq> [] \<longrightarrow>
      sublist (historyText toText history) (collaborationPrompt toText prompt rnd input history)"
    by (simp add: transcript_in_collaborationPrompt)
  have in_synthesis: "sublist (historyText toText history) (synthesisPrompt toText prompt history)"
    by (rule transcript_in_synthesisPrompt)
  have same_round: "brainstorm up toText prompt rnd claudeInput_arg (Some (map truncated history)) w
       = brainstorm up toText prompt rnd claudeInput_arg (Some history) w"
    by (rule brainstorm_truncated)
  have same_synthesis: "synthesis up toText prompt (map truncated history) w = synthesis up toText prompt history w"
    by (rule synthesis_truncated)
  from shape claude gemini bounded rendered in_round in_synthesis same_round same_synthesis
  show ?thesis by blast
qed

theorem transcript_truncation_witness:
  "renderEntry decimal longEntry =
     ''\<newline>Round 1:\<newline>- Claude: '' @ replicate 500 CHR ''x'' @ ''...\<newline>- Gemini: A...\<newline>''
   \<and> longEntry \<in> set [longEntry]
   \<and> sublist (renderEntry decimal longEntry) (historyText decimal [longEntry])
   \<and> [longEntry] \<noteq> []
   \<and> sublist (historyText decimal [longEntry]) (collaborationPrompt decimal ''Build a todo app'' 2 ''Y'' [longEntry])
   \<and> length (claudeInput longEntry) = 2000
   \<and> length (renderEntry decimal longEntry) = 539"
proof -
  have "take 500 (replicate 2000 CHR ''x'') = replicate 500 CHR ''x''" by simp
  then have shown: "renderEntry decimal longEntry =
     ''\<newline>Round 1:\<newline>- Claude: '' @ replicate 500 CHR ''x'' @ ''...\<newline>- Gemini: A...\<newline>''"
    using transcript_truncation [where toText = decimal and entry = longEntry]
    by (simp add: longEntry_def decimal_1)
  have member: "longEntry \<in> set [longEntry]" and nonempty: "[longEntry] \<noteq> []" by simp_all
  from transcript_truncation
         [where toText = decimal and entry = longEntry and history = "[longEntry]"
            and prompt = "''Build a todo app''" and rnd = 2 and input = "''Y''"]
       member nonempty
  have "sublist (renderEntry decimal longEntry) (historyText decimal [longEntry])"
    and "sublist (historyText decimal [longEntry]) (collaborationPrompt decimal ''Build a todo app'' 2 ''Y'' [longEntry])"
    by blast+
  moreover have "length (claudeInput longEntry) = 2000" by (simp add: longEntry_def)
  moreover have "length (renderEntry decimal longEntry) = 539" by (simp add: shown)
  ultimately show ?thesis using shown member nonempty by blast
qed

text \<open>
  C4. In a round after the first, a missing caller input makes the handler return (not
  throw) the error payload asking for the input, and no upstream call is issued: the
  world is left as it was.
\<close>

theorem brainstorm_missing_input:
  assumes "(1::'n::{one,order}) < rnd"
  shows "brainstorm up toText prompt rnd None history_arg w = (Inr missingInputResult, w)
       \<and> isError missingInputResult
       \<and> issued w (snd (brainstorm up toText prompt rnd None history_arg w)) = []"
proof -
  from assms have "rnd \<noteq> 1" by auto
  then show ?thesis
    by (simp add: brainstorm_no_input_eq issued_same missingInputResult_def)
qed

theorem brainstorm_missing_input_witness:
  "(1::int) < 2
   \<and> brainstorm (fixedStub ''B'') decimal ''Build a todo app'' 2 None (Some exampleHistory) exampleWorld
       = (Inr missingInputResult, exampleWorld)
   \<and> isError missingInputResult
   \<and> issued exampleWorld
         (snd (brainstorm (fixedStub ''B'') decimal ''Build a todo app'' 2 None (Some exampleHistory) exampleWorld)) = []"
proof -
  have later: "(1::int) < 2" by simp
  from brainstorm_missing_input [OF later] later show ?thesis by blast
qed

text \<open>
  C6. In round 1 the handler issues exactly one upstream call, on the Pro handle, with
  the initial prompt; that prompt contains the problem text and is built from the problem
  text alone, so the run is the same whatever caller input and history are passed, also
  none at all; and when the upstream answers, the handler returns that text unchanged,
  without the error flag.
\<close>

theorem brainstorm_first_round:
  "issued w (snd (brainstorm up toText prompt 1 claudeInput_arg history_arg w))
     = [(geminiProModel (globals w), initialPrompt prompt)]
   \<and> sublist prompt (initialPrompt prompt)
   \<and> brainstorm up toText prompt 1 claudeInput_arg history_arg w = brainstorm up toText prompt 1 None None w
   \<and> (up (geminiProModel (globals w)) (initialPrompt prompt) = Inr response
        \<longrightarrow> fst (brainstorm up toText prompt 1 claudeInput_arg history_arg w) = Inr (textResult response))
   \<and> content_text (textResult response) = response
   \<and> \<not> isError (textResult response)"
  by (simp add: brainstorm_round1_eq issued_append textResult_def problem_in_initialPrompt)

theorem brainstorm_first_round_witness:
  "fixedStub ''A'' (geminiProModel (globals exampleWorld)) (initialPrompt ''Build a todo app'') = Inr ''A''
   \<and> fst (brainstorm (fixedStub ''A'') decimal ''Build a todo app'' 1 None None exampleWorld) = Inr (textResult ''A'')
   \<and> issued exampleWorld (snd (brainstorm (fixedStub ''A'') decimal ''Build a todo app'' 1 None None exampleWorld))
       = [(''gemini-2.5-pro-preview-03-25'', initialPrompt ''Build a todo app'')]"
proof -
  have answers:
    "fixedStub ''A'' (geminiProModel (globals exampleWorld)) (initialPrompt ''Build a todo app'') = Inr ''A''"
    by (simp add: fixedStub_def)
  have pro: "geminiProModel (globals exampleWorld) = ''gemini-2.5-pro-preview-03-25''"
    by (simp add: exampleWorld_def exampleClient_def)
  from brainstorm_first_round
         [where w = exampleWorld and up = "fixedStub ''A''" and toText = decimal
            and prompt = "''Build a todo app''" and claudeInput_arg = None and history_arg = None
            and response = "''A''"]
    answers pro
  show ?thesis by simp
qed

text \<open>
  C7. When the upstream call of a brainstorm round or of a synthesis fails, the handler
  returns the payload with the error flag set and the text \<open>Error: \<close> followed by the
  message of the failure. Neither handler ever throws, whatever its arguments and
  whatever the upstream does.
\<close>

theorem upstream_failure_is_returned:
  "(up (geminiProModel (globals w)) (initialPrompt prompt) = Inl error
      \<longrightarrow> fst (brainstorm up toText prompt 1 claudeInput_arg history_arg w) = Inr (errorResult error))
   \<and> (rnd \<noteq> 1 \<and> input \<noteq> [] \<and>
      up (geminiProModel (globals w))
         (collaborationPrompt toText prompt rnd input (case history_arg of None \<Rightarrow> [] | Some h \<Rightarrow> h)) = Inl error
      \<longrightarrow> fst (brainstorm up toText prompt rnd (Some input) history_arg w) = Inr (errorResult error))
   \<and> (up (geminiProModel (globals w)) (synthesisPrompt toText prompt history) = Inl error
      \<longrightarrow> fst (synthesis up toText prompt history w) = Inr (errorResult error))
   \<and> isError (errorResult error)
   \<and> content_text (errorResult error) = ''Error: '' @ errorMessage error
   \<and> (\<exists>r. fst (brainstorm up toText prompt rnd claudeInput_arg history_arg w) = Inr r)
   \<and> (\<exists>r. fst (synthesis up toText prompt history w) = Inr r)"
proof -
  have "\<exists>r. fst (brainstorm up toText prompt rnd claudeInput_arg history_arg w) = Inr r"
  proof (cases "rnd = 1")
    case True
    then show ?thesis by (simp add: brainstorm_round1_eq)
  next
    case False
    show ?thesis
    proof (cases "claudeInput_arg = None \<or> claudeInput_arg = Some []")
      case True
      with False show ?thesis by (simp add: brainstorm_no_input_eq)
    next
      case False
      then obtain input where "claudeInput_arg = Some input" "input \<noteq> []" by auto
      with \<open>rnd \<noteq> 1\<close> show ?thesis by (simp add: brainstorm_later_eq)
    qed
  qed
  then show ?thesis
    by (simp add: brainstorm_round1_eq brainstorm_later_eq synthesis_eq errorResult_def)
qed

theorem upstream_failure_is_returned_witness:
  "fst (brainstorm (failingStub (JsError ''quota exceeded'')) decimal ''Build a todo app'' 1 None None exampleWorld)
     = Inr \<lparr>content_text = ''Error: quota exceeded'', isError = True\<rparr>
   \<and> fst (brainstorm (failingStub (JsError ''quota exceeded'')) decimal ''Build a todo app'' 2 (Some ''Y'')
            (Some exampleHistory) exampleWorld)
     = Inr \<lparr>content_text = ''Error: quota exceeded'', isError = True\<rparr>
   \<and> fst (synthesis (failingStub (JsError ''quota exceeded'')) decimal ''Build a todo app'' exampleHistory exampleWorld)
     = Inr \<lparr>content_text = ''Error: quota exceeded'', isError = True\<rparr>"
proof -
  have fails: "failingStub (JsError ''quota exceeded'') model prompt = Inl (JsError ''quota exceeded'')"
    for model prompt
    by (simp add: failingStub_def)
  have payload: "errorResult (JsError ''quota exceeded'')
                 = \<lparr>content_text = ''Error: quota exceeded'', isError = True\<rparr>"
    by (simp add: errorResult_def errorMessage_def)
  have later: "(2::int) \<noteq> 1" and given: "''Y'' \<noteq> []" by simp_all
  from upstream_failure_is_returned
         [where up = "failingStub (JsError ''quota exceeded'')" and w = exampleWorld
            and toText = decimal and prompt = "''Build a todo app''"
            and error = "JsError ''quota exceeded''" and claudeInput_arg = None
            and history_arg = "Some exampleHistory" and rnd = 2 and input = "''Y''"
            and history = exampleHistory]
       upstream_failure_is_returned
         [where up = "failingStub (JsError ''quota exceeded'')" and w = exampleWorld
            and toText = decimal and prompt = "''Build a todo app''"
            and error = "JsError ''quota exceeded''" and claudeInput_arg = None
            and history_arg = None and rnd = 2 and input = "''Y''" and history = exampleHistory]
       fails later given
  show ?thesis by (simp add: payload)
qed

text \<open>
  C8. A handler run reads the world only through the module globals and leaves them as
  they were, so a second run with the same arguments against the same upstream returns
  the same payload as the first and issues the same upstream calls; the calls issued
  before have no influence on the payload.
\<close>

theorem brainstorm_deterministic:
  "fst (brainstorm up toText prompt rnd claudeInput_arg history_arg
          (snd (brainstorm up toText prompt rnd claudeInput_arg history_arg w)))
     = fst (brainstorm up toText prompt rnd claudeInput_arg history_arg w)
   \<and> globals (snd (brainstorm up toText prompt rnd claudeInput_arg history_arg w)) = globals w
   \<and> issued (snd (brainstorm up toText prompt rnd claudeInput_arg history_arg w))
        (snd (brainstorm up toText prompt rnd claudeInput_arg history_arg
               (snd (brainstorm up toText prompt rnd claudeInput_arg history_arg w))))
     = issued w (snd (brainstorm up toText prompt rnd claudeInput_arg history_arg w))
   \<and> fst (brainstorm up toText prompt rnd claudeInput_arg history_arg (w\<lparr>calls := cs\<rparr>))
     = fst (brainstorm up toText prompt rnd claudeInput_arg history_arg w)"
proof (cases "rnd = 1")
  case True
  then show ?thesis by (simp add: brainstorm_round1_eq issued_def)
next
  case False
  show ?thesis
  proof (cases "claudeInput_arg = None \<or> claudeInput_arg = Some []")
    case True
    with False show ?thesis by (simp add: brainstorm_no_input_eq issued_same)
  next
    case False
    then obtain input where "claudeInput_arg = Some input" "input \<noteq> []" by auto
    with \<open>rnd \<noteq> 1\<close> show ?thesis by (simp add: brainstorm_later_eq issued_def)
  qed
qed

theorem brainstorm_deterministic_witness:
  "fst (brainstorm (fixedStub ''B'') decimal ''Build a todo app'' 2 (Some ''Y'') (Some exampleHistory)
          (snd (brainstorm (fixedStub ''B'') decimal ''Build a todo app'' 2 (Some ''Y'') (Some exampleHistory)
                  exampleWorld)))
     = Inr (textResult ''B'')
   \<and> fst (brainstorm (fixedStub ''B'') decimal ''Build a todo app'' 2 (Some ''Y'') (Some exampleHistory) exampleWorld)
     = Inr (textResult ''B'')"
proof -
  have "fst (brainstorm (fixedStub ''B'') decimal ''Build a todo app'' 2 (Some ''Y'') (Some exampleHistory) exampleWorld)
          = Inr (textResult ''B'')"
    by (simp add: brainstorm_later_eq fixedStub_def)
  with brainstorm_deterministic
         [where up = "fixedStub ''B''" and toText = decimal and prompt = "''Build a todo app''"
            and rnd = 2 and claudeInput_arg = "Some ''Y''" and history_arg = "Some exampleHistory"
            and w = exampleWorld]
  show ?thesis by simp
qed

text \<open>
  C9. The marker \<open>...\<close> follows each rendered text whether or not anything was cut: a
  caller text of at most 500 characters is rendered in full and followed by the marker,
  and so is a model text of at most 500 characters, the empty text too. For an entry of
  the history, that full text with its marker is part of the transcript, of the
  collaboration prompt and of the synthesis prompt, and these prompts are what the two
  handlers send upstream.
\<close>

theorem elision_marker_unconditional:
  "(length (claudeInput entry) \<le> 500 \<longrightarrow>
      renderEntry toText entry =
        ''\<newline>Round '' @ toText (round_no entry) @ '':\<newline>'' @
        ''- Claude: '' @ claudeInput entry @ ''...'' @ ''\<newline>'' @
        ''- Gemini: '' @ take 500 (geminiResponse entry) @ ''...'' @ ''\<newline>'')
   \<and> (length (geminiResponse entry) \<le> 500 \<longrightarrow>
      renderEntry toText entry =
        ''\<newline>Round '' @ toText (round_no entry) @ '':\<newline>'' @
        ''- Claude: '' @ take 500 (claudeInput entry) @ ''...'' @ ''\<newline>'' @
        ''- Gemini: '' @ geminiResponse entry @ ''...'' @ ''\<newline>'')
   \<and> (entry \<in> set history \<and> length (claudeInput entry) \<le> 500 \<longrightarrow>
        sublist (''- Claude: '' @ claudeInput entry @ ''...'') (historyText toText history)
      \<and> sublist (''- Claude: '' @ claudeInput entry @ ''...'')
           (collaborationPrompt toText prompt rnd input history)
      \<and> sublist (''- Claude: '' @ claudeInput entry @ ''...'') (synthesisPrompt toText prompt history))
   \<and> (entry \<in> set history \<and> length (geminiResponse entry) \<le> 500 \<longrightarrow>
        sublist (''- Gemini: '' @ geminiResponse entry @ ''...'') (historyText toText history)
      \<and> sublist (''- Gemini: '' @ geminiResponse entry @ ''...'')
           (collaborationPrompt toText prompt rnd input history)
      \<and> sublist (''- Gemini: '' @ geminiResponse entry @ ''...'') (synthesisPrompt toText prompt history))
   \<and> (rnd \<noteq> 1 \<and> input \<noteq> [] \<longrightarrow>
        issued w (snd (brainstorm up toText prompt rnd (Some input) (Some history) w))
          = [(geminiProModel (globals w), collaborationPrompt toText prompt rnd input history)])
   \<and> issued w (snd (synthesis up toText prompt history w))
        = [(geminiProModel (globals w), synthesisPrompt toText prompt history)]"
proof -
  have claude_shape: "renderEntry toText entry =
        ''\<newline>Round '' @ toText (round_no entry) @ '':\<newline>'' @
        ''- Claude: '' @ claudeInput entry @ ''...'' @ ''\<newline>'' @
        ''- Gemini: '' @ take 500 (geminiResponse entry) @ ''...'' @ ''\<newline>''"
    if "length (claudeInput entry) \<le> 500"
    using that by (simp add: renderEntry_def)
  have gemini_shape: "renderEntry toText entry =
        ''\<newline>Round '' @ toText (round_no entry) @ '':\<newline>'' @
        ''- Claude: '' @ take 500 (claudeInput entry) @ ''...'' @ ''\<newline>'' @
        ''- Gemini: '' @ geminiResponse entry @ ''...'' @ ''\<newline>''"
    if "length (geminiResponse entry) \<le> 500"
    using that by (simp add: renderEntry_def)
  have claude_sent:
    "sublist (''- Claude: '' @ claudeInput entry @ ''...'') (historyText toText history)
      \<and> sublist (''- Claude: '' @ claudeInput entry @ ''...'')
           (collaborationPrompt toText prompt rnd input history)
      \<and> sublist (''- Claude: '' @ claudeInput entry @ ''...'') (synthesisPrompt toText prompt history)"
    if "entry \<in> set history" "length (claudeInput entry) \<le> 500"
    using part_of_entry_in_prompts [OF that(1) claude_in_entry [OF that(2)]] by blast
  have gemini_sent:
    "sublist (''- Gemini: '' @ geminiResponse entry @ ''...'') (historyText toText history)
      \<and> sublist (''- Gemini: '' @ geminiResponse entry @ ''...'')
           (collaborationPrompt toText prompt rnd input history)
      \<and> sublist (''- Gemini: '' @ geminiResponse entry @ ''...'') (synthesisPrompt toText prompt history)"
    if "entry \<in> set history" "length (geminiResponse entry) \<le> 500"
    using part_of_entry_in_prompts [OF that(1) gemini_in_entry [OF that(2)]] by blast
  have round_call:
    "issued w (snd (brainstorm up toText prompt rnd (Some input) (Some history) w))
          = [(geminiProModel (globals w), collaborationPrompt toText prompt rnd input history)]"
    if "rnd \<noteq> 1" "input \<noteq> []"
    using that by (simp add: brainstorm_later_eq issued_append)
  have synthesis_call:
    "issued w (snd (synthesis up toText prompt history w))
        = [(geminiProModel (globals w), synthesisPrompt toText prompt history)]"
    by (simp add: synthesis_eq issued_append)
  from claude_shape gemini_shape claude_sent gemini_sent round_call synthesis_call
  show ?thesis by blast
qed

theorem elision_marker_unconditional_witness:
  "length (claudeInput shortEntry) \<le> 500
   \<and> length (geminiResponse shortEntry) \<le> 500
   \<and> shortEntry \<in> set [shortEntry]
   \<and> renderEntry decimal shortEntry = ''\<newline>Round 1:\<newline>- Claude: X...\<newline>- Gemini: ...\<newline>''
   \<and> sublist ''- Claude: X...'' (historyText decimal [shortEntry])
   \<and> sublist ''- Claude: X...'' (collaborationPrompt decimal ''Build a todo app'' 2 ''Y'' [shortEntry])
   \<and> sublist ''- Claude: X...'' (synthesisPrompt decimal ''Build a todo app'' [shortEntry])
   \<and> sublist ''- Gemini: ...'' (historyText decimal [shortEntry])
   \<and> sublist ''- Gemini: ...'' (collaborationPrompt decimal ''Build a todo app'' 2 ''Y'' [shortEntry])
   \<and> sublist ''- Gemini: ...'' (synthesisPrompt decimal ''Build a todo app'' [shortEntry])
   \<and> issued exampleWorld
         (snd (brainstorm (fixedStub ''B'') decimal ''Build a todo app'' 2 (Some ''Y'') (Some [shortEntry])
                 exampleWorld))
       = [(''gemini-2.5-pro-preview-03-25'', collaborationPrompt decimal ''Build a todo app'' 2 ''Y'' [shortEntry])]
   \<and> issued exampleWorld
         (snd (synthesis (fixedStub ''plan'') decimal ''Build a todo app'' [shortEntry] exampleWorld))
       = [(''gemini-2.5-pro-preview-03-25'', synthesisPrompt decimal ''Build a todo app'' [shortEntry])]"
proof -
  note at_short =
    elision_marker_unconditional
      [where toText = decimal and entry = shortEntry and history = "[shortEntry]"
         and prompt = "''Build a todo app''" and rnd = 2 and input = "''Y''"
         and w = exampleWorld]
  have short: "length (claudeInput shortEntry) \<le> 500" "length (geminiResponse shortEntry) \<le> 500"
    by (simp_all add: shortEntry_def)
  have member: "shortEntry \<in> set [shortEntry]" by simp
  have later: "(2::int) \<noteq> 1" and given: "''Y'' \<noteq> []" by simp_all
  have claude: "''- Claude: '' @ claudeInput shortEntry @ ''...'' = ''- Claude: X...''"
    and gemini: "''- Gemini: '' @ geminiResponse shortEntry @ ''...'' = ''- Gemini: ...''"
    by (simp_all add: shortEntry_def)
  have pro: "geminiProModel (globals exampleWorld) = ''gemini-2.5-pro-preview-03-25''"
    by (simp add: exampleWorld_def exampleClient_def)
  from at_short short(1) have "renderEntry decimal shortEntry =
        ''\<newline>Round '' @ decimal (round_no shortEntry) @ '':\<newline>'' @
        ''- Claude: '' @ claudeInput shortEntry @ ''...'' @ ''\<newline>'' @
        ''- Gemini: '' @ take 500 (geminiResponse shortEntry) @ ''...'' @ ''\<newline>''"
    by blast
  then have shown: "renderEntry decimal shortEntry
      = ''\<newline>Round 1:\<newline>- Claude: X...\<newline>- Gemini: ...\<newline>''"
    by (simp add: shortEntry_def decimal_1)
  from at_short member short
  have sent: "sublist (''- Claude: '' @ claudeInput shortEntry @ ''...'') (historyText decimal [shortEntry])"
    "sublist (''- Claude: '' @ claudeInput shortEntry @ ''...'')
       (collaborationPrompt decimal ''Build a todo app'' 2 ''Y'' [shortEntry])"
    "sublist (''- Claude: '' @ claudeInput shortEntry @ ''...'')
       (synthesisPrompt decimal ''Build a todo app'' [shortEntry])"
    "sublist (''- Gemini: '' @ geminiResponse shortEntry @ ''...'') (historyText decimal [shortEntry])"
    "sublist (''- Gemini: '' @ geminiResponse shortEntry @ ''...'')
       (collaborationPrompt decimal ''Build a todo app'' 2 ''Y'' [shortEntry])"
    "sublist (''- Gemini: '' @ geminiResponse shortEntry @ ''...'')
       (synthesisPrompt decimal ''Build a todo app'' [shortEntry])"
    by blast+
  from at_short [where up = "fixedStub ''B''"] later given
  have round_call: "issued exampleWorld
         (snd (brainstorm (fixedStub ''B'') decimal ''Build a todo app'' 2 (Some ''Y'') (Some [shortEntry])
                 exampleWorld))
       = [(geminiProModel (globals exampleWorld),
           collaborationPrompt decimal ''Build a todo app'' 2 ''Y'' [shortEntry])]"
    by blast
  from at_short [where up = "fixedStub ''plan''"]
  have synthesis_call: "issued exampleWorld
         (snd (synthesis (fixedStub ''plan'') decimal ''Build a todo app'' [shortEntry] exampleWorld))
       = [(geminiProModel (globals exampleWorld), synthesisPrompt decimal ''Build a todo app'' [shortEntry])]"
    by blast
  from short member shown sent [unfolded claude gemini] round_call [unfolded pro] synthesis_call [unfolded pro]
  show ?thesis by blast
qed


section \<open>Properties of the client module\<close>

subsection \<open>The retry loop, attempt by attempt\<close>

lemma connectionAttempt_eq:
  "connectionAttempt c v st =
     (case failure (v (attempts st + 1)) of
        None \<Rightarrow>
          (Inr (), st\<lparr>attempts := attempts st + 1, events := events st @ [validation c],
                       now := now st + elapsed (v (attempts st + 1)), connected := True\<rparr>)
      | Some error \<Rightarrow>
          (Inl error, st\<lparr>attempts := attempts st + 1, events := events st @ [validation c],
                          now := now st + elapsed (v (attempts st + 1))\<rparr>))"
  by (simp add: connectionAttempt_def failure_def elapsed_def validation_def Let_def
           split: prod.splits sum.splits)




lemma loop_exhausted:
  assumes "failure (v 1) = Some e1" "failure (v 2) = Some e2" "failure (v 3) = Some e3"
  shows "connectLoop c v initialState =
           (Inl (exhaustedError e3),
            \<lparr>connected = False, attempts = 3,
             now = elapsed (v 1) + retryDelayMs + elapsed (v 2) + retryDelayMs + elapsed (v 3),
             events = retried c 2\<rparr>)"
  using assms
  by (simp add: connectLoop.simps connectionAttempt_eq initialState_def maxAttempts_def pause_def
        retried_def numeral_2_eq_2 numeral_3_eq_3)


lemma init_with_key:
  assumes "GEMINI_API_KEY e = Some apiKey" "apiKey \<noteq> []"
  shows "initResult e v = fst (connectLoop (configure e apiKey) v initialState)"
    and "initEvents e v = events (snd (connectLoop (configure e apiKey) v initialState))"
    and "initTime e v = now (snd (connectLoop (configure e apiKey) v initialState))"
  using assms
  by (simp_all add: initGeminiClient_def initResult_def initEvents_def initTime_def Let_def
        split: prod.splits)





lemma exhaustedError_eq:
  "exhaustedError error = JsError (''Failed to connect to Gemini API after 3 attempts: '' @ errorMessage error)"
proof -
  have "decimal (int maxAttempts) = ''3''" unfolding maxAttempts_def by code_simp
  then show ?thesis by (simp add: exhaustedError_def)
qed


subsection \<open>Calls that are still unsettled when the timer fires\<close>

lemma race_overdue:
  "overdue s \<Longrightarrow> race s = (Inl (JsError ''Connection timeout''), timeoutMs)"
  by (cases s) (simp_all add: overdue_def race_def)

lemma race_agree:
  "v k = v' k \<or> (overdue (v k) \<and> overdue (v' k)) \<Longrightarrow> race (v k) = race (v' k)"
  by (auto simp: race_overdue)

lemma connectLoop_agree:
  assumes "\<And>k. race (v k) = race (v' k)"
  shows "connectLoop c v st = connectLoop c v' st"
  using assms
proof (induction c v st rule: connectLoop.induct)
  case (1 c v st)
  have same: "connectionAttempt c v st = connectionAttempt c v' st"
    by (simp add: connectionAttempt_def "1.prems")
  show ?case
  proof (cases "\<not> connected st \<and> attempts st < maxAttempts")
    case False
    then show ?thesis
      by (auto simp add: connectLoop.simps [of c v st] connectLoop.simps [of c v' st])
  next
    case True
    obtain r st' where attempt: "connectionAttempt c v st = (r, st')" by (cases "connectionAttempt c v st")
    show ?thesis
    proof (cases r)
      case (Inr u)
      from "1.IH"(2) [OF True attempt [symmetric] Inr "1.prems"]
      have "connectLoop c v st' = connectLoop c v' st'" .
      with True attempt same Inr show ?thesis
        by (simp add: connectLoop.simps [of c v st] connectLoop.simps [of c v' st])
    next
      case (Inl error)
      show ?thesis
      proof (cases "maxAttempts \<le> attempts st'")
        case True
        with \<open>\<not> connected st \<and> attempts st < maxAttempts\<close> attempt same Inl show ?thesis
          by (simp add: connectLoop.simps [of c v st] connectLoop.simps [of c v' st])
      next
        case False
        from "1.IH"(1) [OF \<open>\<not> connected st \<and> attempts st < maxAttempts\<close> attempt [symmetric] Inl False
              "1.prems"]
        have "connectLoop c v (pause st') = connectLoop c v' (pause st')" .
        with False \<open>\<not> connected st \<and> attempts st < maxAttempts\<close> attempt same Inl show ?thesis
          by (simp add: connectLoop.simps [of c v st] connectLoop.simps [of c v' st])
      qed
    qed
  qed
qed

lemma init_agree:
  assumes "\<And>k. race (v k) = race (v' k)"
  shows "initGeminiClient e v = initGeminiClient e v'"
proof -
  have "connectLoop c v initialState = connectLoop c v' initialState" for c
    using assms by (rule connectLoop_agree)
  then show ?thesis by (simp add: initGeminiClient_def Let_def split: option.splits)
qed

lemma attempt_overdue:
  assumes "overdue (v (attempts st + 1))"
  shows "connectionAttempt c v st =
           (Inl (JsError ''Connection timeout''),
            st\<lparr>attempts := attempts st + 1, events := events st @ [validation c],
               now := now st + timeoutMs\<rparr>)"
  using race_overdue [OF assms]
  by (simp add: connectionAttempt_def validation_def Let_def)

lemma failure_overdue: "overdue s \<Longrightarrow> failure s = Some (JsError ''Connection timeout'')"
  by (simp add: failure_def race_overdue)

lemma elapsed_overdue: "overdue s \<Longrightarrow> elapsed s = timeoutMs"
  by (simp add: elapsed_def race_overdue)

lemma elapsed_bound: "elapsed s \<le> timeoutMs"
  by (cases s) (simp_all add: elapsed_def race_def)

subsection \<open>What the chat is sent\<close>

lemma forward_sent:
  "forwardUserMessages cu ms chat = (Inr u, chat')
     \<Longrightarrow> chat' = chat\<lparr>sent := sent chat @ userContents ms\<rparr>"
proof (induction ms arbitrary: chat)
  case Nil
  then show ?case by (simp add: userContents_def)
next
  case (Cons m ms)
  show ?case
  proof (cases "role m = User")
    case False
    with Cons show ?thesis by (simp add: userContents_def)
  next
    case True
    with Cons.prems obtain t where
      "forwardUserMessages cu ms (chat\<lparr>sent := sent chat @ [content m]\<rparr>) = (Inr u, chat')"
      by (auto simp: sendMessage_def split: sum.splits)
    from Cons.IH [OF this] True show ?thesis by (simp add: userContents_def)
  qed
qed

lemma forward_answered:
  assumes "\<And>earlier msg. \<exists>t. cu (chat_model chat) earlier msg = Inr t"
  shows "forwardUserMessages cu ms chat = (Inr (), chat\<lparr>sent := sent chat @ userContents ms\<rparr>)"
  using assms
proof (induction ms arbitrary: chat)
  case Nil
  then show ?case by (simp add: userContents_def)
next
  case (Cons m ms)
  show ?case
  proof (cases "role m = User")
    case False
    with Cons show ?thesis by (simp add: userContents_def)
  next
    case True
    from Cons.prems obtain t where "cu (chat_model chat) (sent chat) (content m) = Inr t" by blast
    moreover have "forwardUserMessages cu ms (chat\<lparr>sent := sent chat @ [content m]\<rparr>)
        = (Inr (), chat\<lparr>sent := sent chat @ [content m]\<rparr>
                     \<lparr>sent := sent (chat\<lparr>sent := sent chat @ [content m]\<rparr>) @ userContents ms\<rparr>)"
      using Cons.prems by (intro Cons.IH) simp
    ultimately show ?thesis using True by (simp add: sendMessage_def userContents_def)
  qed
qed

lemma userContents_last:
  assumes "messages \<noteq> []" "role (last messages) = User"
  shows "userContents messages = userContents (butlast messages) @ [content (last messages)]"
proof -
  from assms(1) have "messages = butlast messages @ [last messages]" by simp
  then have "userContents messages = userContents (butlast messages @ [last messages])" by simp
  with assms(2) show ?thesis by (simp add: userContents_def)
qed


section \<open>The claims about the client module\<close>




text \<open>
  C5. Time is logical, in milliseconds, and the race between the validation call and the
  10000 ms timer goes to whichever settles first. An attempt whose call is still unsettled
  when the timer fires (it never settles, or settles later) fails with the timeout error
  after exactly 10000 ms and leaves \<open>connected\<close> as it was. What such calls do later is
  discarded: two behaviours of the validation calls that differ only in overdue calls give
  the same run of \<open>initGeminiClient\<close>, result, globals, calls, pauses and clock. With
  the credential present and three overdue calls the function throws after 34000 ms. No
  attempt takes more than 10000 ms.
\<close>

theorem timeout_precedence:
  "(overdue (v (attempts st + 1)) \<longrightarrow>
      connectionAttempt c v st =
        (Inl (JsError ''Connection timeout''),
         st\<lparr>attempts := attempts st + 1, events := events st @ [validation c],
            now := now st + 10000\<rparr>))
   \<and> ((\<forall>k. v k = v' k \<or> (overdue (v k) \<and> overdue (v' k)))
        \<longrightarrow> initGeminiClient e v = initGeminiClient e v')
   \<and> (GEMINI_API_KEY e = Some apiKey \<and> apiKey \<noteq> [] \<and> overdue (v 1) \<and> overdue (v 2) \<and> overdue (v 3)
        \<longrightarrow> initResult e v
              = Inl (JsError ''Failed to connect to Gemini API after 3 attempts: Connection timeout'')
            \<and> initTime e v = 34000)
   \<and> elapsed (v k) \<le> 10000"
proof -
  have attempt: "connectionAttempt c v st =
        (Inl (JsError ''Connection timeout''),
         st\<lparr>attempts := attempts st + 1, events := events st @ [validation c],
            now := now st + 10000\<rparr>)"
    if "overdue (v (attempts st + 1))"
    using that attempt_overdue [of v st c] by (simp add: timeoutMs_def)
  have discarded: "initGeminiClient e v = initGeminiClient e v'"
    if "\<forall>k. v k = v' k \<or> (overdue (v k) \<and> overdue (v' k))"
    using that by (intro init_agree race_agree) simp
  have silent: "initResult e v
              = Inl (JsError ''Failed to connect to Gemini API after 3 attempts: Connection timeout'')
            \<and> initTime e v = 34000"
    if "GEMINI_API_KEY e = Some apiKey" "apiKey \<noteq> []" "overdue (v 1)" "overdue (v 2)" "overdue (v 3)"
    using that
    by (simp add: init_with_key loop_exhausted failure_overdue elapsed_overdue exhaustedError_eq
          errorMessage_def timeoutMs_def retryDelayMs_def)
  have bounded: "elapsed (v k) \<le> 10000"
    using elapsed_bound [of "v k"] by (simp add: timeoutMs_def)
  from attempt discarded silent bounded show ?thesis by blast
qed

theorem timeout_precedence_witness:
  "initGeminiClient exampleEnv lateValidator = initGeminiClient exampleEnv silentValidator
   \<and> initResult exampleEnv lateValidator
       = Inl (JsError ''Failed to connect to Gemini API after 3 attempts: Connection timeout'')
   \<and> initTime exampleEnv lateValidator = 34000
   \<and> fst (connectionAttempt exampleClient silentValidator initialState)
       = Inl (JsError ''Connection timeout'')
   \<and> now (snd (connectionAttempt exampleClient silentValidator initialState)) = 10000
   \<and> \<not> connected (snd (connectionAttempt exampleClient lateValidator initialState))"
proof -
  have key: "GEMINI_API_KEY exampleEnv = Some ''key''" "''key'' \<noteq> []"
    by (simp_all add: exampleEnv_def)
  have late: "overdue (lateValidator k)" and silent: "overdue (silentValidator k)" for k
    by (simp_all add: overdue_def lateValidator_def silentValidator_def timeoutMs_def)
  then have both: "\<forall>k. lateValidator k = silentValidator k
                      \<or> (overdue (lateValidator k) \<and> overdue (silentValidator k))"
    by blast
  from timeout_precedence [of lateValidator initialState exampleClient silentValidator exampleEnv "''key''"]
    both key late
  have whole: "initGeminiClient exampleEnv lateValidator = initGeminiClient exampleEnv silentValidator"
    "initResult exampleEnv lateValidator
       = Inl (JsError ''Failed to connect to Gemini API after 3 attempts: Connection timeout'')"
    "initTime exampleEnv lateValidator = 34000"
    by blast+
  from timeout_precedence [of silentValidator initialState exampleClient] silent
  have "connectionAttempt exampleClient silentValidator initialState =
        (Inl (JsError ''Connection timeout''),
         initialState\<lparr>attempts := attempts initialState + 1,
            events := events initialState @ [validation exampleClient],
            now := now initialState + 10000\<rparr>)"
    by blast
  then have one: "fst (connectionAttempt exampleClient silentValidator initialState)
       = Inl (JsError ''Connection timeout'')"
    "now (snd (connectionAttempt exampleClient silentValidator initialState)) = 10000"
    by (simp_all add: initialState_def)
  from timeout_precedence [of lateValidator initialState exampleClient] late
  have "connectionAttempt exampleClient lateValidator initialState =
        (Inl (JsError ''Connection timeout''),
         initialState\<lparr>attempts := attempts initialState + 1,
            events := events initialState @ [validation exampleClient],
            now := now initialState + 10000\<rparr>)"
    by blast
  then have "\<not> connected (snd (connectionAttempt exampleClient lateValidator initialState))"
    by (simp add: initialState_def)
  with whole one show ?thesis by blast
qed


text \<open>
  C10. For a non-empty message list whose last message is from the user: when the chat
  upstream answers every message, \<open>generateWithChat\<close> sends the contents of the user
  messages in order, the last message's content at their end, and then the last
  message's content once more, and returns the answer to that second send. Whenever the
  function returns at all, the messages sent are these.
\<close>

theorem last_user_message_sent_twice:
  "(messages \<noteq> [] \<and> role (last messages) = User
      \<and> (\<forall>earlier msg. \<exists>t. cu (if useProModel then geminiProModel c else geminiFlashModel c) earlier msg = Inr t)
     \<longrightarrow> sent (snd (generateWithChat cu c messages useProModel))
           = userContents (butlast messages) @ [content (last messages), content (last messages)]
         \<and> fst (generateWithChat cu c messages useProModel)
           = cu (if useProModel then geminiProModel c else geminiFlashModel c)
                (userContents (butlast messages) @ [content (last messages)]) (content (last messages)))
   \<and> (messages \<noteq> [] \<and> role (last messages) = User
      \<and> fst (generateWithChat cu c messages useProModel) = Inr response
     \<longrightarrow> sent (snd (generateWithChat cu c messages useProModel))
           = userContents (butlast messages) @ [content (last messages), content (last messages)])"
proof -
  let ?model = "if useProModel then geminiProModel c else geminiFlashModel c"
  let ?chat = "\<lparr>chat_model = ?model, sent = []\<rparr>"
  have answered: "sent (snd (generateWithChat cu c messages useProModel))
           = userContents (butlast messages) @ [content (last messages), content (last messages)]
         \<and> fst (generateWithChat cu c messages useProModel)
           = cu ?model (userContents (butlast messages) @ [content (last messages)]) (content (last messages))"
    if nonempty: "messages \<noteq> []" and user: "role (last messages) = User"
      and answers: "\<forall>earlier msg. \<exists>t. cu ?model earlier msg = Inr t"
  proof -
    from answers have "forwardUserMessages cu messages ?chat
        = (Inr (), ?chat\<lparr>sent := sent ?chat @ userContents messages\<rparr>)"
      by (intro forward_answered) simp
    with nonempty user show ?thesis
      by (simp add: generateWithChat_def Let_def sendMessage_def userContents_last split: sum.splits)
  qed
  have returned: "sent (snd (generateWithChat cu c messages useProModel))
           = userContents (butlast messages) @ [content (last messages), content (last messages)]"
    if nonempty: "messages \<noteq> []" and user: "role (last messages) = User"
      and result: "fst (generateWithChat cu c messages useProModel) = Inr response"
  proof -
    obtain r chat' where forward: "forwardUserMessages cu messages ?chat = (r, chat')"
      by (cases "forwardUserMessages cu messages ?chat")
    with result nonempty user obtain u where "r = Inr u"
      by (cases r) (simp_all add: generateWithChat_def Let_def)
    with forward have "chat' = ?chat\<lparr>sent := sent ?chat @ userContents messages\<rparr>"
      by (intro forward_sent) simp
    with forward \<open>r = Inr u\<close> nonempty user show ?thesis
      by (simp add: generateWithChat_def Let_def sendMessage_def userContents_last split: sum.splits)
  qed
  from answered returned show ?thesis by blast
qed

theorem last_user_message_sent_twice_witness:
  "sent (snd (generateWithChat echoChat exampleClient exampleMessages True)) = [''hello'', ''plan?'', ''plan?'']
   \<and> fst (generateWithChat echoChat exampleClient exampleMessages True) = Inr ''re: plan?''"
proof -
  have nonempty: "exampleMessages \<noteq> []" and user: "role (last exampleMessages) = User"
    by (simp_all add: exampleMessages_def)
  have answers: "\<forall>earlier msg. \<exists>t.
      echoChat (if True then geminiProModel exampleClient else geminiFlashModel exampleClient) earlier msg = Inr t"
    by (simp add: echoChat_def)
  from last_user_message_sent_twice [of exampleMessages echoChat True exampleClient] nonempty user answers
  have "sent (snd (generateWithChat echoChat exampleClient exampleMessages True))
           = userContents (butlast exampleMessages) @ [content (last exampleMessages), content (last exampleMessages)]"
    and "fst (generateWithChat echoChat exampleClient exampleMessages True)
           = echoChat (if True then geminiProModel exampleClient else geminiFlashModel exampleClient)
                (userContents (butlast exampleMessages) @ [content (last exampleMessages)])
                (content (last exampleMessages))"
    by blast+
  then show ?thesis by (simp add: exampleMessages_def userContents_def echoChat_def)
qed


end
